theory Spec2Isabelle
  imports Main "HOL-Library.Word"
begin

section \<open>Strings\<close>

text \<open>
  A JavaScript string is a sequence of UTF-16 code units, and a regular expression
  without the \<open>u\<close> flag works on code units. The text of a paper, the configured
  URLs and the feedback texts are modelled as such sequences. Names that only occur
  as identifiers in the source (option keys, research names, property names) are
  HOL strings.
\<close>

type_synonym code_unit = "16 word"
type_synonym jsstring = "code_unit list"

text \<open>The code units of an ASCII literal of the source.\<close>

definition utf16 :: "string \<Rightarrow> jsstring" where
  "utf16 s = map of_char s"

section \<open>Regular expressions\<close>

text \<open>
  The fragment of the JavaScript pattern language that
  \<^verbatim>\<open>/<[uo]l.*>[\s\S]*<\/[uo]l>/\<close> is written in: a sequence of terms, each a
  single-character matcher, possibly under a greedy star.
\<close>

definition is_line_terminator :: "code_unit \<Rightarrow> bool" where
  "is_line_terminator c = (c = 0x000A \<or> c = 0x000D \<or> c = 0x2028 \<or> c = 0x2029)"

definition is_white_space :: "code_unit \<Rightarrow> bool" where
  "is_white_space c =
     (c = 0x0009 \<or> c = 0x000B \<or> c = 0x000C \<or> c = 0x0020 \<or> c = 0x00A0 \<or> c = 0x1680
      \<or> (0x2000 \<le> c \<and> c \<le> 0x200A) \<or> c = 0x202F \<or> c = 0x205F \<or> c = 0x3000
      \<or> c = 0xFEFF)"

datatype char_class =
    Lit code_unit                      \<comment> \<open>a pattern character\<close>
  | OneOf "code_unit list"             \<comment> \<open>a class of listed characters, as \<^verbatim>\<open>[uo]\<close>\<close>
  | Dot                                \<comment> \<open>\<^verbatim>\<open>.\<close>: anything but a line terminator\<close>
  | SpaceOrNonSpace                    \<comment> \<open>\<^verbatim>\<open>[\s\S]\<close>\<close>

fun class_matches :: "char_class \<Rightarrow> code_unit \<Rightarrow> bool" where
  "class_matches (Lit k) c = (c = k)"
| "class_matches (OneOf ks) c = (c \<in> set ks)"
| "class_matches Dot c = (\<not> is_line_terminator c)"
| "class_matches SpaceOrNonSpace c =
     ((is_white_space c \<or> is_line_terminator c) \<or> \<not> (is_white_space c \<or> is_line_terminator c))"

datatype pattern_term = One char_class | Star char_class

type_synonym pattern = "pattern_term list"

text \<open>
  Matching a pattern at the start of the input, as the backtracking matcher does: a
  starred term first takes one more character and, when the rest fails that way, gives
  the character back.
\<close>

fun matches_at :: "pattern \<Rightarrow> jsstring \<Rightarrow> bool" where
  "matches_at [] s = True"
| "matches_at (One k # ts) [] = False"
| "matches_at (One k # ts) (c # s) = (class_matches k c \<and> matches_at ts s)"
| "matches_at (Star k # ts) [] = matches_at ts []"
| "matches_at (Star k # ts) (c # s) =
     ((class_matches k c \<and> matches_at (Star k # ts) s) \<or> matches_at ts (c # s))"

text \<open>
  \<^verbatim>\<open>RegExp.prototype.test\<close> for a pattern without the \<open>g\<close> and \<open>y\<close> flags: the
  search starts at index 0 and tries every start position up to the end of the input.
\<close>

fun test :: "pattern \<Rightarrow> jsstring \<Rightarrow> bool" where
  "test r [] = matches_at r []"
| "test r (c # s) = (matches_at r (c # s) \<or> test r s)"

section \<open>Content unit, result and researcher\<close>

text \<open>
  Modelled from the spec: the class \<^verbatim>\<open>Paper\<close> (\<^verbatim>\<open>values/Paper\<close>) is not among the source
  files. The Content Unit of the data model is an immutable value with these fields.
\<close>

record paper =
  paper_text :: jsstring
  keyphrase :: jsstring
  synonyms :: "jsstring list"
  paper_locale :: jsstring
  attributes :: "(jsstring \<times> jsstring) list"

text \<open>
  Modelled from the spec: the read-only accessor of the text, missing with \<^verbatim>\<open>Paper\<close>.
\<close>

definition getText :: "paper \<Rightarrow> jsstring" where
  "getText p = paper_text p"

text \<open>
  Modelled from the spec: \<^verbatim>\<open>hasText\<close>, missing with \<^verbatim>\<open>Paper\<close>, is a pure function of
  the stored fields, and a Content Unit with empty text has no text.
\<close>

definition hasText :: "paper \<Rightarrow> bool" where
  "hasText p = (paper_text p \<noteq> [])"

text \<open>
  Modelled from the spec: \<^verbatim>\<open>hasKeyword\<close> (\<^verbatim>\<open>hasKeyphrase\<close> in the specification), missing
  with \<^verbatim>\<open>Paper\<close>, is a pure function of the stored fields.
\<close>

definition hasKeyword :: "paper \<Rightarrow> bool" where
  "hasKeyword p = (keyphrase p \<noteq> [])"

text \<open>
  Modelled from the spec: the class \<^verbatim>\<open>AssessmentResult\<close> (\<^verbatim>\<open>values/AssessmentResult\<close>)
  is not among the source files. A Result has a score that is a number or absent, a
  feedback text and the flag \<open>hasMarks\<close>. The identifier of a Result is never written
  by a check and is left out. Numbers are integers here: every number the two checks
  handle is a count or a configured score.
\<close>

record assessment_result =
  score :: "int option"
  feedback_text :: jsstring
  hasMarks :: bool

text \<open>
  Modelled from the spec: the constructor of \<^verbatim>\<open>AssessmentResult\<close>. A new Result has no
  score, an empty text and no marks: the Result of the list check, which never sets
  the flag, has it false.
\<close>

definition new_AssessmentResult :: assessment_result where
  "new_AssessmentResult = \<lparr>score = None, feedback_text = [], hasMarks = False\<rparr>"

text \<open>
  Modelled from the spec: the setters of \<^verbatim>\<open>AssessmentResult\<close>. The score passed is a
  number or undefined, and undefined is the absent score.
\<close>

definition setScore :: "assessment_result \<Rightarrow> int option \<Rightarrow> assessment_result" where
  "setScore r s = r\<lparr>assessment_result.score := s\<rparr>"

definition setText :: "assessment_result \<Rightarrow> jsstring \<Rightarrow> assessment_result" where
  "setText r t = r\<lparr>feedback_text := t\<rparr>"

definition setHasMarks :: "assessment_result \<Rightarrow> bool \<Rightarrow> assessment_result" where
  "setHasMarks r m = r\<lparr>hasMarks := m\<rparr>"

text \<open>
  The exceptions of a run: the lookup of a computation that was never registered, and
  the \<^verbatim>\<open>TypeError\<close> of reading a property of undefined or null.
\<close>

datatype error = UnknownComputationError | TypeError

text \<open>
  Modelled from the spec: the class \<^verbatim>\<open>Researcher\<close> is not among the source files. It
  holds the Content Unit it works for, the registry that maps the name of a computation
  to a function of the Content Unit, and the cache of values, keyed by unit and name.
  The value of a computation is any value: undefined or null, of which no property can
  be read, or another value, modelled by its numeric properties (a property it lacks
  reads as undefined).
\<close>

datatype research_value = Nullish | Object "string \<rightharpoonup> int"

record researcher =
  current_unit :: paper
  computations :: "string \<rightharpoonup> (paper \<Rightarrow> research_value)"
  cache :: "(paper \<times> string) \<rightharpoonup> research_value"

text \<open>
  Modelled from the spec: \<open>get\<close> of the researcher (\<^verbatim>\<open>getResearch\<close> in the source)
  fails with \<open>UnknownComputationError\<close> when the name was never registered; the first
  call for a unit runs the function and stores the value under the unit and the name,
  later calls for the same unit return the stored value.
\<close>

definition getResearch :: "researcher \<Rightarrow> string \<Rightarrow> error + (research_value \<times> researcher)" where
  "getResearch r name =
     (case computations r name of
        None \<Rightarrow> Inl UnknownComputationError
      | Some computeFn \<Rightarrow>
          (case cache r (current_unit r, name) of
             Some v \<Rightarrow> Inr (v, r)
           | None \<Rightarrow>
               (let v = computeFn (current_unit r)
                in Inr (v, r\<lparr>cache := (cache r)((current_unit r, name) \<mapsto> v)\<rparr>))))"

section \<open>Collaborators outside the source files\<close>

text \<open>
  The two checks call helpers whose code is not among the source files; they are
  parameters of the model: \<^verbatim>\<open>removeHtmlBlocks\<close> (\<^verbatim>\<open>languageProcessing/helpers/html/htmlParser\<close>),
  \<^verbatim>\<open>createAnchorOpeningTag\<close> (\<^verbatim>\<open>helpers\<close>), the translation function \<^verbatim>\<open>__\<close> and
  \<^verbatim>\<open>sprintf\<close> of \<^verbatim>\<open>@wordpress/i18n\<close>, and \<^verbatim>\<open>hasEnoughContentForAssessment\<close> of the
  base class \<^verbatim>\<open>Assessment\<close>, taken as a predicate on the paper.
\<close>

record collaborators =
  removeHtmlBlocks :: "jsstring \<Rightarrow> jsstring"
  createAnchorOpeningTag :: "jsstring \<Rightarrow> jsstring"
  i18n_translate :: "jsstring \<Rightarrow> jsstring \<Rightarrow> jsstring"
  sprintf :: "jsstring \<Rightarrow> jsstring list \<Rightarrow> jsstring"
  hasEnoughContentForAssessment :: "paper \<Rightarrow> bool"

section \<open>Configuration\<close>

text \<open>
  The configuration object of a check: the nested objects \<open>parameters\<close> and
  \<open>scores\<close> map an option name to a number, \<open>urlTitle\<close> and \<open>urlCallToAction\<close>
  are strings, and \<open>further\<close> holds every other top-level key. In the record a caller
  passes to a constructor every option may be missing.
\<close>

record configuration =
  parameters :: "string \<rightharpoonup> int"
  scores :: "string \<rightharpoonup> int"
  urlTitle :: jsstring
  urlCallToAction :: jsstring
  further :: "string \<rightharpoonup> jsstring"

record options =
  opt_parameters :: "string \<rightharpoonup> int"
  opt_scores :: "string \<rightharpoonup> int"
  opt_urlTitle :: "jsstring option"
  opt_urlCallToAction :: "jsstring option"
  opt_further :: "string \<rightharpoonup> jsstring"

text \<open>The default value \<^verbatim>\<open>{}\<close> of the constructors' parameter.\<close>

definition no_options :: options where
  "no_options = \<lparr>opt_parameters = Map.empty, opt_scores = Map.empty, opt_urlTitle = None,
     opt_urlCallToAction = None, opt_further = Map.empty\<rparr>"

text \<open>
  \<^verbatim>\<open>merge\<close> of lodash on these objects: nested objects are merged key by key, a key
  of the source replaces the one of the destination, and a key that the source lacks
  (or holds undefined) keeps the destination's value.
\<close>

definition merge :: "configuration \<Rightarrow> options \<Rightarrow> configuration" where
  "merge object source =
     \<lparr>parameters = parameters object ++ opt_parameters source,
      scores = scores object ++ opt_scores source,
      urlTitle = (case opt_urlTitle source of None \<Rightarrow> urlTitle object | Some u \<Rightarrow> u),
      urlCallToAction =
        (case opt_urlCallToAction source of None \<Rightarrow> urlCallToAction object | Some u \<Rightarrow> u),
      further = further object ++ opt_further source\<rparr>"

text \<open>
  The comparison \<^verbatim>\<open>>\<close> on operands that are a number or undefined: undefined
  converts to NaN, and every comparison with NaN is false.
\<close>

fun js_gt :: "int option \<Rightarrow> int option \<Rightarrow> bool" where
  "js_gt (Some a) (Some b) = (a > b)"
| "js_gt _ _ = False"

text \<open>The fields that the base class and both checks have.\<close>

record assessment =
  config :: configuration
  assessment_identifier :: string

text \<open>The object literal that \<^verbatim>\<open>calculateResult\<close> returns.\<close>

record calculated_result =
  score :: "int option"
  resultText :: jsstring

section \<open>ListAssessment\<close>

text \<open>
  An instance holds the merged configuration, the identifier and the field
  \<open>textContainsList\<close>, which \<^verbatim>\<open>getResult\<close> writes and \<^verbatim>\<open>calculateResult\<close> reads;
  it is undefined (\<open>None\<close>) until the first run.
\<close>

record list_assessment = assessment +
  textContainsList :: "bool option"

definition ListAssessment_defaultConfig :: "collaborators \<Rightarrow> configuration" where
  "ListAssessment_defaultConfig E =
     \<lparr>parameters = Map.empty,
      scores = [''bad'' \<mapsto> 3, ''good'' \<mapsto> 9],
      urlTitle = createAnchorOpeningTag E (utf16 ''https://yoa.st/shopify38''),
      urlCallToAction = createAnchorOpeningTag E (utf16 ''https://yoa.st/shopify39''),
      further = Map.empty\<rparr>"

definition ListAssessment :: "collaborators \<Rightarrow> options \<Rightarrow> list_assessment" where
  "ListAssessment E cfg =
     \<lparr>config = merge (ListAssessment_defaultConfig E) cfg,
      assessment_identifier = ''listsPresence'',
      textContainsList = None\<rparr>"

text \<open>The pattern \<^verbatim>\<open>/<[uo]l.*>[\s\S]*<\/[uo]l>/\<close> of \<^verbatim>\<open>findList\<close>.\<close>

definition findList_regex :: pattern where
  "findList_regex =
     [One (Lit 0x3C), One (OneOf [0x75, 0x6F]), One (Lit 0x6C), Star Dot, One (Lit 0x3E),
      Star SpaceOrNonSpace,
      One (Lit 0x3C), One (Lit 0x2F), One (OneOf [0x75, 0x6F]), One (Lit 0x6C), One (Lit 0x3E)]"

definition ListAssessment_findList :: "collaborators \<Rightarrow> paper \<Rightarrow> bool" where
  "ListAssessment_findList E p =
     (let t = getText p;
          t = removeHtmlBlocks E t
      in test findList_regex t)"

definition ListAssessment_calculateResult ::
  "collaborators \<Rightarrow> list_assessment \<Rightarrow> calculated_result" where
  "ListAssessment_calculateResult E this =
     (if textContainsList this = Some True
      then \<lparr>score = scores (config this) ''good'',
            resultText =
              sprintf E
                (i18n_translate E
                   (utf16 ''%1$sLists%2$s: There is at least one list on this page. Great!'')
                   (utf16 ''yoast-woo-seo''))
                [urlTitle (config this), utf16 ''</a>'']\<rparr>
      else \<lparr>score = scores (config this) ''bad'',
            resultText =
              sprintf E
                (i18n_translate E
                   (utf16 (''%1$sLists%3$s: No lists appear on this page. ''
                      @ ''%2$sAdd at least one ordered or unordered list%3$s!''))
                   (utf16 ''yoast-woo-seo''))
                [urlTitle (config this), urlCallToAction (config this), utf16 ''</a>'']\<rparr>)"

text \<open>
  A method call returns its value together with the instance as the call leaves it.
\<close>

definition ListAssessment_getResult ::
  "collaborators \<Rightarrow> list_assessment \<Rightarrow> paper \<Rightarrow> assessment_result \<times> list_assessment" where
  "ListAssessment_getResult E this p =
     (let this = this\<lparr>textContainsList := Some (ListAssessment_findList E p)\<rparr>;
          calculatedScore = ListAssessment_calculateResult E this;
          assessmentResult = new_AssessmentResult;
          assessmentResult = setScore assessmentResult (calculated_result.score calculatedScore);
          assessmentResult = setText assessmentResult (resultText calculatedScore)
      in (assessmentResult, this))"

definition ListAssessment_isApplicable ::
  "collaborators \<Rightarrow> list_assessment \<Rightarrow> paper \<Rightarrow> bool \<times> list_assessment" where
  "ListAssessment_isApplicable E this p = (hasEnoughContentForAssessment E p, this)"

section \<open>TextCompetingLinksAssessment\<close>

text \<open>
  An instance holds the merged configuration, the identifier and the field
  \<open>totalAnchorsWithKeyphrase\<close>, written by \<^verbatim>\<open>getResult\<close> and read by
  \<^verbatim>\<open>calculateResult\<close>.
\<close>

record links_assessment = assessment +
  totalAnchorsWithKeyphrase :: "int option"

definition TextCompetingLinksAssessment_defaultConfig :: "collaborators \<Rightarrow> configuration" where
  "TextCompetingLinksAssessment_defaultConfig E =
     \<lparr>parameters = [''recommendedMaximum'' \<mapsto> 0],
      scores = [''bad'' \<mapsto> 2],
      urlTitle = createAnchorOpeningTag E (utf16 ''https://yoa.st/34l''),
      urlCallToAction = createAnchorOpeningTag E (utf16 ''https://yoa.st/34m''),
      further = Map.empty\<rparr>"

definition TextCompetingLinksAssessment :: "collaborators \<Rightarrow> options \<Rightarrow> links_assessment" where
  "TextCompetingLinksAssessment E cfg =
     \<lparr>config = merge (TextCompetingLinksAssessment_defaultConfig E) cfg,
      assessment_identifier = ''textCompetingLinks'',
      totalAnchorsWithKeyphrase = None\<rparr>"

text \<open>\<^verbatim>\<open>calculateResult\<close> returns undefined (\<open>None\<close>) when its condition is false.\<close>

definition TextCompetingLinksAssessment_calculateResult ::
  "collaborators \<Rightarrow> links_assessment \<Rightarrow> calculated_result option" where
  "TextCompetingLinksAssessment_calculateResult E this =
     (if js_gt (totalAnchorsWithKeyphrase this) (parameters (config this) ''recommendedMaximum'')
      then Some
        \<lparr>score = scores (config this) ''bad'',
         resultText =
           sprintf E
             (i18n_translate E
                (utf16 (''%1$sLink keyphrase%3$s: You're linking to another page with the ''
                   @ ''words you want this page to rank for. %2$sDon't do that%3$s!''))
                (utf16 ''wordpress-seo''))
             [urlTitle (config this), urlCallToAction (config this), utf16 ''</a>'']\<rparr>
      else None)"

text \<open>
  \<^verbatim>\<open>getResult\<close> receives the researcher, whose lookup may fail and may fill the cache,
  and reads the property \<^verbatim>\<open>anchorsWithKeyphraseCount\<close> of the value the lookup returns,
  which raises a \<^verbatim>\<open>TypeError\<close> when that value is undefined or null. The call returns
  the error, or the Result with the instance and the researcher as the call leaves them.
  The parameter \<open>paper\<close> is not used by the body.
\<close>

definition TextCompetingLinksAssessment_getResult ::
  "collaborators \<Rightarrow> links_assessment \<Rightarrow> paper \<Rightarrow> researcher
     \<Rightarrow> error + (assessment_result \<times> links_assessment \<times> researcher)" where
  "TextCompetingLinksAssessment_getResult E this p r =
     (let assessmentResult = new_AssessmentResult
      in case getResearch r ''getAnchorsWithKeyphrase'' of
           Inl e \<Rightarrow> Inl e
         | Inr (Nullish, r) \<Rightarrow> Inl TypeError
         | Inr (Object research, r) \<Rightarrow>
             (let this = this\<lparr>totalAnchorsWithKeyphrase := research ''anchorsWithKeyphraseCount''\<rparr>;
                  calculatedResult = TextCompetingLinksAssessment_calculateResult E this
              in case calculatedResult of
                   None \<Rightarrow> Inr (assessmentResult, this, r)
                 | Some c \<Rightarrow>
                     (let assessmentResult = setScore assessmentResult (calculated_result.score c);
                          assessmentResult = setText assessmentResult (resultText c);
                          assessmentResult = setHasMarks assessmentResult False
                      in Inr (assessmentResult, this, r))))"

definition TextCompetingLinksAssessment_isApplicable ::
  "links_assessment \<Rightarrow> paper \<Rightarrow> bool \<times> links_assessment" where
  "TextCompetingLinksAssessment_isApplicable this p = (hasText p \<and> hasKeyword p, this)"

section \<open>Reading the outcome of a run\<close>

text \<open>
  The Result of a run of \<^verbatim>\<open>TextCompetingLinksAssessment.getResult\<close>, or its error; the
  instance and the researcher as the run leaves them. A run that fails does so in the
  lookup or at the read of the property, before the assignment to the instance; when
  it fails at the read of the property, the lookup has already run and may have filled
  the cache.
\<close>

definition result_of ::
  "error + (assessment_result \<times> links_assessment \<times> researcher) \<Rightarrow> error + assessment_result" where
  "result_of x = (case x of Inl e \<Rightarrow> Inl e | Inr (res, this, r) \<Rightarrow> Inr res)"

definition instance_after ::
  "links_assessment \<Rightarrow> error + (assessment_result \<times> links_assessment \<times> researcher)
     \<Rightarrow> links_assessment" where
  "instance_after this x = (case x of Inl e \<Rightarrow> this | Inr (res, this', r) \<Rightarrow> this')"

definition researcher_after ::
  "researcher \<Rightarrow> error + (assessment_result \<times> links_assessment \<times> researcher) \<Rightarrow> researcher" where
  "researcher_after r x =
     (case x of
        Inl e \<Rightarrow>
          (case getResearch r ''getAnchorsWithKeyphrase'' of
             Inl e' \<Rightarrow> r
           | Inr (v, r') \<Rightarrow> r')
      | Inr (res, this, r') \<Rightarrow> r')"

text \<open>
  The scores a Result may hold on the internal scale: absent, or a number from 0 to 9.
\<close>

definition in_scoring_scale :: "int option \<Rightarrow> bool" where
  "in_scoring_scale s = (case s of None \<Rightarrow> True | Some n \<Rightarrow> 0 \<le> n \<and> n \<le> 9)"

text \<open>
  The options that \<^verbatim>\<open>getResult\<close> and \<^verbatim>\<open>calculateResult\<close> of each check read from
  \<^verbatim>\<open>this._config\<close>. Two records of options that agree on them differ only in options
  unknown to the check.
\<close>

definition ListAssessment_reads_same :: "options \<Rightarrow> options \<Rightarrow> bool" where
  "ListAssessment_reads_same c c' =
     (opt_scores c ''good'' = opt_scores c' ''good''
      \<and> opt_scores c ''bad'' = opt_scores c' ''bad''
      \<and> opt_urlTitle c = opt_urlTitle c'
      \<and> opt_urlCallToAction c = opt_urlCallToAction c')"

definition TextCompetingLinksAssessment_reads_same :: "options \<Rightarrow> options \<Rightarrow> bool" where
  "TextCompetingLinksAssessment_reads_same c c' =
     (opt_parameters c ''recommendedMaximum'' = opt_parameters c' ''recommendedMaximum''
      \<and> opt_scores c ''bad'' = opt_scores c' ''bad''
      \<and> opt_urlTitle c = opt_urlTitle c'
      \<and> opt_urlCallToAction c = opt_urlCallToAction c')"

section \<open>Concrete inputs\<close>

text \<open>
  Stand-ins for the collaborators, to run the model on concrete inputs: HTML-block
  removal that finds no block to remove, an anchor tag around the URL, a translation
  that returns the source text, a formatter that appends its arguments, and a paper
  that has enough content when it has text.
\<close>

definition plain_collaborators :: collaborators where
  "plain_collaborators =
     \<lparr>removeHtmlBlocks = (\<lambda>t. t),
      createAnchorOpeningTag = (\<lambda>url. utf16 ''<a href='' @ url @ utf16 ''>''),
      i18n_translate = (\<lambda>t domain. t),
      sprintf = (\<lambda>format args. format @ concat args),
      hasEnoughContentForAssessment = (\<lambda>p. paper_text p \<noteq> [])\<rparr>"

text \<open>The Content Unit \<^verbatim>\<open>{text: t, keyphrase: k}\<close>, its other fields empty.\<close>

definition content_unit :: "jsstring \<Rightarrow> jsstring \<Rightarrow> paper" where
  "content_unit t k =
     \<lparr>paper_text = t, keyphrase = k, synonyms = [], paper_locale = [], attributes = []\<rparr>"

text \<open>A researcher for a Content Unit with the given registry and an empty cache.\<close>

definition new_researcher :: "paper \<Rightarrow> (string \<rightharpoonup> (paper \<Rightarrow> research_value)) \<Rightarrow> researcher" where
  "new_researcher p fs = \<lparr>current_unit = p, computations = fs, cache = Map.empty\<rparr>"

text \<open>A computation that reports \<open>n\<close> anchors with the keyphrase.\<close>

definition count_research :: "int \<Rightarrow> paper \<Rightarrow> research_value" where
  "count_research n p = Object [''anchorsWithKeyphraseCount'' \<mapsto> n]"

text \<open>
  The Content Units of the scenarios: a page with a list, a page without one, and the
  page with empty text.
\<close>

definition list_page :: paper where
  "list_page = content_unit (utf16 ''<ul><li>a</li></ul> dogs'') (utf16 ''dogs'')"

definition plain_page :: paper where
  "plain_page = content_unit (utf16 ''dogs'') (utf16 ''dogs'')"

definition empty_page :: paper where
  "empty_page = content_unit [] (utf16 ''cats'')"

text \<open>A researcher for a page whose only computation reports \<open>n\<close> anchors.\<close>

definition researcher_counting :: "int \<Rightarrow> paper \<Rightarrow> researcher" where
  "researcher_counting n p = new_researcher p [''getAnchorsWithKeyphrase'' \<mapsto> count_research n]"


text \<open>
  Instances with the default configuration that earlier runs have left their values in.
\<close>

definition used_ListAssessment :: list_assessment where
  "used_ListAssessment =
     (ListAssessment plain_collaborators no_options)\<lparr>textContainsList := Some True\<rparr>"

definition used_TextCompetingLinksAssessment :: links_assessment where
  "used_TextCompetingLinksAssessment =
     (TextCompetingLinksAssessment plain_collaborators no_options)
       \<lparr>totalAnchorsWithKeyphrase := Some 7\<rparr>"

text \<open>Options that neither check reads.\<close>

definition unknown_options :: options where
  "unknown_options =
     \<lparr>opt_parameters = [''recommendedMinimum'' \<mapsto> 1], opt_scores = [''ok'' \<mapsto> 6],
      opt_urlTitle = None, opt_urlCallToAction = None,
      opt_further = [''futureOption'' \<mapsto> utf16 ''on'']\<rparr>"

section \<open>The matcher\<close>

lemma class_matches_SpaceOrNonSpace [simp]: "class_matches SpaceOrNonSpace c"
  by auto

declare class_matches.simps(4) [simp del]

lemma matches_at_One:
  "matches_at (One k # ts) s \<longleftrightarrow> (\<exists>c s'. s = c # s' \<and> class_matches k c \<and> matches_at ts s')"
  by (cases s) auto

lemma matches_at_Star:
  "matches_at (Star k # ts) s \<longleftrightarrow>
     (\<exists>m s'. s = m @ s' \<and> (\<forall>c \<in> set m. class_matches k c) \<and> matches_at ts s')"
proof (induction s)
  case Nil
  then show ?case by simp
next
  case (Cons c s)
  show ?case
  proof
    assume "matches_at (Star k # ts) (c # s)"
    then consider "class_matches k c" "matches_at (Star k # ts) s" | "matches_at ts (c # s)"
      by auto
    then show "\<exists>m s'. c # s = m @ s' \<and> (\<forall>c \<in> set m. class_matches k c) \<and> matches_at ts s'"
    proof cases
      case 1
      with Cons.IH obtain m s' where
        "s = m @ s'" "\<forall>c \<in> set m. class_matches k c" "matches_at ts s'"
        by auto
      then have "c # s = (c # m) @ s' \<and> (\<forall>x \<in> set (c # m). class_matches k x)
          \<and> matches_at ts s'"
        using 1 by simp
      then show ?thesis by blast
    next
      case 2
      then have "c # s = [] @ (c # s) \<and> (\<forall>x \<in> set ([]::jsstring). class_matches k x)
          \<and> matches_at ts (c # s)"
        by simp
      then show ?thesis by blast
    qed
  next
    assume "\<exists>m s'. c # s = m @ s' \<and> (\<forall>c \<in> set m. class_matches k c) \<and> matches_at ts s'"
    then obtain m s' where
      ms: "c # s = m @ s'" "\<forall>c \<in> set m. class_matches k c" "matches_at ts s'"
      by auto
    show "matches_at (Star k # ts) (c # s)"
    proof (cases m)
      case Nil
      with ms have "matches_at ts (c # s)" by simp
      then show ?thesis by simp
    next
      case (Cons x m')
      with ms have "x = c" "s = m' @ s'" "class_matches k c" "\<forall>c \<in> set m'. class_matches k c"
        by auto
      with ms(3) Cons.IH show ?thesis by auto
    qed
  qed
qed

lemma matches_at_StarI:
  "\<forall>c \<in> set m. class_matches k c \<Longrightarrow> matches_at ts s' \<Longrightarrow> matches_at (Star k # ts) (m @ s')"
  unfolding matches_at_Star by blast

lemma test_iff: "test r s \<longleftrightarrow> (\<exists>a b. s = a @ b \<and> matches_at r b)"
proof (induction s)
  case Nil
  then show ?case by simp
next
  case (Cons c s)
  show ?case
  proof
    assume "test r (c # s)"
    then consider "matches_at r (c # s)" | "test r s" by auto
    then show "\<exists>a b. c # s = a @ b \<and> matches_at r b"
    proof cases
      case 1
      then have "c # s = [] @ (c # s) \<and> matches_at r (c # s)" by simp
      then show ?thesis by blast
    next
      case 2
      with Cons.IH obtain a b where "s = a @ b" "matches_at r b" by auto
      then have "c # s = (c # a) @ b \<and> matches_at r b" by simp
      then show ?thesis by blast
    qed
  next
    assume "\<exists>a b. c # s = a @ b \<and> matches_at r b"
    then obtain a b where ab: "c # s = a @ b" "matches_at r b" by auto
    show "test r (c # s)"
    proof (cases a)
      case Nil
      with ab have "matches_at r (c # s)" by simp
      then show ?thesis by simp
    next
      case (Cons x a')
      with ab have "s = a' @ b" by simp
      with ab(2) Cons.IH show ?thesis by auto
    qed
  qed
qed

text \<open>
  What the pattern of \<^verbatim>\<open>findList\<close> finds: an opening \<^verbatim>\<open><ul\<close> or \<^verbatim>\<open><ol\<close>, then
  characters that are no line terminators, a \<^verbatim>\<open>>\<close>, any characters, and a closing
  \<^verbatim>\<open></ul>\<close> or \<^verbatim>\<open></ol>\<close>.
\<close>

lemma test_findList_regex:
  "test findList_regex t \<longleftrightarrow>
     (\<exists>a x m n y b.
        t = a @ utf16 ''<'' @ [x] @ utf16 ''l'' @ m @ utf16 ''>'' @ n
              @ utf16 ''</'' @ [y] @ utf16 ''l>'' @ b
        \<and> x \<in> set (utf16 ''uo'') \<and> y \<in> set (utf16 ''uo'')
        \<and> (\<forall>c \<in> set m. \<not> is_line_terminator c))"
  (is "?L \<longleftrightarrow> ?R")
proof
  assume ?L
  then obtain a b where t: "t = a @ b" and m: "matches_at findList_regex b"
    by (auto simp: test_iff)
  from m obtain x b1 m' b2 n y b4 where
    "b = 0x3C # x # 0x6C # b1" "x = 0x75 \<or> x = 0x6F"
    "b1 = m' @ 0x3E # b2" "\<forall>c \<in> set m'. \<not> is_line_terminator c"
    "b2 = n @ 0x3C # 0x2F # y # 0x6C # 0x3E # b4" "y = 0x75 \<or> y = 0x6F"
    unfolding findList_regex_def matches_at_One matches_at_Star
    by auto
  with t have "t = a @ utf16 ''<'' @ [x] @ utf16 ''l'' @ m' @ utf16 ''>'' @ n
              @ utf16 ''</'' @ [y] @ utf16 ''l>'' @ b4
        \<and> x \<in> set (utf16 ''uo'') \<and> y \<in> set (utf16 ''uo'')
        \<and> (\<forall>c \<in> set m'. \<not> is_line_terminator c)"
    by (auto simp: utf16_def)
  then show ?R by blast
next
  assume ?R
  then obtain a x m n y b where
    t: "t = a @ utf16 ''<'' @ [x] @ utf16 ''l'' @ m @ utf16 ''>'' @ n
              @ utf16 ''</'' @ [y] @ utf16 ''l>'' @ b"
    and x: "x \<in> set (utf16 ''uo'')" and y: "y \<in> set (utf16 ''uo'')"
    and m: "\<forall>c \<in> set m. \<not> is_line_terminator c"
    by blast
  let ?closing = "[One (Lit 0x3C), One (Lit 0x2F), One (OneOf [0x75, 0x6F]), One (Lit 0x6C),
    One (Lit 0x3E)]"
  have 1: "matches_at ?closing (0x3C # 0x2F # y # 0x6C # 0x3E # b)"
    using y by (auto simp: utf16_def)
  have 2: "matches_at (Star SpaceOrNonSpace # ?closing) (n @ 0x3C # 0x2F # y # 0x6C # 0x3E # b)"
    using 1 by (intro matches_at_StarI) simp_all
  have 3: "matches_at (Star Dot # One (Lit 0x3E) # Star SpaceOrNonSpace # ?closing)
     (m @ 0x3E # n @ 0x3C # 0x2F # y # 0x6C # 0x3E # b)"
    using 2 m by (intro matches_at_StarI) simp_all
  have "matches_at findList_regex
     (0x3C # x # 0x6C # m @ 0x3E # n @ 0x3C # 0x2F # y # 0x6C # 0x3E # b)"
    unfolding findList_regex_def using 3 x by (auto simp: utf16_def)
  with t show ?L
    unfolding test_iff by (auto simp: utf16_def)
qed

lemma test_list_scenario: "test findList_regex (utf16 ''<ul><li>a</li></ul> dogs'')"
  by code_simp

section \<open>The merged configuration\<close>

lemma ListAssessment_config:
  "scores (config (ListAssessment E c)) k
      = (case opt_scores c k of
           None \<Rightarrow> scores (ListAssessment_defaultConfig E) k | Some v \<Rightarrow> Some v)"
  "parameters (config (ListAssessment E c)) k
      = (case opt_parameters c k of
           None \<Rightarrow> parameters (ListAssessment_defaultConfig E) k | Some v \<Rightarrow> Some v)"
  "urlTitle (config (ListAssessment E c))
      = (case opt_urlTitle c of
           None \<Rightarrow> urlTitle (ListAssessment_defaultConfig E) | Some u \<Rightarrow> u)"
  "urlCallToAction (config (ListAssessment E c))
      = (case opt_urlCallToAction c of
           None \<Rightarrow> urlCallToAction (ListAssessment_defaultConfig E) | Some u \<Rightarrow> u)"
  by (simp_all add: ListAssessment_def merge_def map_add_def split: option.splits)

lemma TextCompetingLinksAssessment_config:
  "scores (config (TextCompetingLinksAssessment E c)) k
      = (case opt_scores c k of
           None \<Rightarrow> scores (TextCompetingLinksAssessment_defaultConfig E) k | Some v \<Rightarrow> Some v)"
  "parameters (config (TextCompetingLinksAssessment E c)) k
      = (case opt_parameters c k of
           None \<Rightarrow> parameters (TextCompetingLinksAssessment_defaultConfig E) k
         | Some v \<Rightarrow> Some v)"
  "urlTitle (config (TextCompetingLinksAssessment E c))
      = (case opt_urlTitle c of
           None \<Rightarrow> urlTitle (TextCompetingLinksAssessment_defaultConfig E) | Some u \<Rightarrow> u)"
  "urlCallToAction (config (TextCompetingLinksAssessment E c))
      = (case opt_urlCallToAction c of
           None \<Rightarrow> urlCallToAction (TextCompetingLinksAssessment_defaultConfig E) | Some u \<Rightarrow> u)"
  by (simp_all add: TextCompetingLinksAssessment_def merge_def map_add_def split: option.splits)

lemma default_scores:
  "scores (config (ListAssessment E no_options)) ''good'' = Some 9"
  "scores (config (ListAssessment E no_options)) ''bad'' = Some 3"
  "scores (config (TextCompetingLinksAssessment E no_options)) ''bad'' = Some 2"
  "parameters (config (TextCompetingLinksAssessment E no_options)) ''recommendedMaximum'' = Some 0"
  by (simp_all add: ListAssessment_config TextCompetingLinksAssessment_config no_options_def
      ListAssessment_defaultConfig_def TextCompetingLinksAssessment_defaultConfig_def)

section \<open>Runs of the two checks\<close>

lemma ListAssessment_getResult_score:
  "assessment_result.score (fst (ListAssessment_getResult E a p))
     = (if ListAssessment_findList E p then scores (config a) ''good''
        else scores (config a) ''bad'')"
  by (simp add: ListAssessment_getResult_def ListAssessment_calculateResult_def Let_def
      new_AssessmentResult_def setScore_def setText_def)

lemma ListAssessment_getResult_hasMarks:
  "\<not> hasMarks (fst (ListAssessment_getResult E a p))"
  by (simp add: ListAssessment_getResult_def Let_def
      new_AssessmentResult_def setScore_def setText_def)

lemma ListAssessment_getResult_config_only:
  "config a = config a' \<Longrightarrow>
     fst (ListAssessment_getResult E a p) = fst (ListAssessment_getResult E a' p)"
  by (simp add: ListAssessment_getResult_def ListAssessment_calculateResult_def Let_def)

lemma ListAssessment_getResult_keeps_config:
  "config (snd (ListAssessment_getResult E a p)) = config a"
  by (simp add: ListAssessment_getResult_def Let_def)

lemma TextCompetingLinksAssessment_getResult_config_only:
  "config b = config b' \<Longrightarrow>
     result_of (TextCompetingLinksAssessment_getResult E b p r)
       = result_of (TextCompetingLinksAssessment_getResult E b' p r)"
  by (simp add: TextCompetingLinksAssessment_getResult_def result_of_def
      TextCompetingLinksAssessment_calculateResult_def Let_def
      split: sum.splits option.splits prod.splits research_value.splits)

lemma TextCompetingLinksAssessment_getResult_keeps_config:
  "config (instance_after b (TextCompetingLinksAssessment_getResult E b p r)) = config b"
  by (simp add: TextCompetingLinksAssessment_getResult_def instance_after_def Let_def
      split: sum.splits option.splits prod.splits research_value.splits)

lemma TextCompetingLinksAssessment_getResult_unregistered:
  "computations r ''getAnchorsWithKeyphrase'' = None \<Longrightarrow>
     TextCompetingLinksAssessment_getResult E b p r = Inl UnknownComputationError"
  by (simp add: TextCompetingLinksAssessment_getResult_def getResearch_def)

lemma TextCompetingLinksAssessment_getResult_Nullish:
  "getResearch r ''getAnchorsWithKeyphrase'' = Inr (Nullish, r') \<Longrightarrow>
     TextCompetingLinksAssessment_getResult E b p r = Inl TypeError"
  by (simp add: TextCompetingLinksAssessment_getResult_def)

lemma TextCompetingLinksAssessment_getResult_Object:
  assumes "getResearch r ''getAnchorsWithKeyphrase'' = Inr (Object props, r')"
  shows "\<exists>res. TextCompetingLinksAssessment_getResult E b p r
        = Inr (res, b\<lparr>totalAnchorsWithKeyphrase := props ''anchorsWithKeyphraseCount''\<rparr>, r')
    \<and> assessment_result.score res
        = (if js_gt (props ''anchorsWithKeyphraseCount'')
                (parameters (config b) ''recommendedMaximum'')
           then scores (config b) ''bad'' else None)
    \<and> \<not> hasMarks res"
  using assms
  by (simp add: TextCompetingLinksAssessment_getResult_def Let_def
      TextCompetingLinksAssessment_calculateResult_def
      new_AssessmentResult_def setScore_def setText_def setHasMarks_def)

lemma TextCompetingLinksAssessment_getResult_Inr:
  assumes "TextCompetingLinksAssessment_getResult E b p r = Inr (res, b', r')"
  shows "\<exists>props. getResearch r ''getAnchorsWithKeyphrase'' = Inr (Object props, r')
    \<and> assessment_result.score res
        = (if js_gt (props ''anchorsWithKeyphraseCount'')
                (parameters (config b) ''recommendedMaximum'')
           then scores (config b) ''bad'' else None)
    \<and> \<not> hasMarks res"
proof (cases "getResearch r ''getAnchorsWithKeyphrase''")
  case (Inl e)
  with assms show ?thesis
    by (simp add: TextCompetingLinksAssessment_getResult_def)
next
  case (Inr x)
  obtain v r1 where x: "x = (v, r1)" by (cases x)
  show ?thesis
  proof (cases v)
    case Nullish
    with assms Inr x show ?thesis
      by (simp add: TextCompetingLinksAssessment_getResult_Nullish)
  next
    case (Object props)
    with Inr x have g: "getResearch r ''getAnchorsWithKeyphrase'' = Inr (Object props, r1)"
      by simp
    from TextCompetingLinksAssessment_getResult_Object [OF g, of E b p] assms
    have "r1 = r'"
      "assessment_result.score res
        = (if js_gt (props ''anchorsWithKeyphraseCount'')
                (parameters (config b) ''recommendedMaximum'')
           then scores (config b) ''bad'' else None)"
      "\<not> hasMarks res"
      by auto
    with g show ?thesis by blast
  qed
qed

lemma getResearch_again:
  "getResearch r name = Inr (v, r') \<Longrightarrow> getResearch r' name = Inr (v, r')"
  by (auto simp: getResearch_def Let_def split: option.splits)

lemma TextCompetingLinksAssessment_getResult_again:
  assumes "TextCompetingLinksAssessment_getResult E b p r = Inr (res, b', r')"
  shows "TextCompetingLinksAssessment_getResult E b' p r' = Inr (res, b', r')"
proof -
  from TextCompetingLinksAssessment_getResult_Inr [OF assms]
  obtain props where g: "getResearch r ''getAnchorsWithKeyphrase'' = Inr (Object props, r')"
    by blast
  then have g': "getResearch r' ''getAnchorsWithKeyphrase'' = Inr (Object props, r')"
    by (rule getResearch_again)
  from g assms have b': "b' = b\<lparr>totalAnchorsWithKeyphrase := props ''anchorsWithKeyphraseCount''\<rparr>"
    by (simp add: TextCompetingLinksAssessment_getResult_def Let_def
        split: option.splits)
  from g g' assms show ?thesis
    unfolding b'
    by (simp add: TextCompetingLinksAssessment_getResult_def Let_def
        TextCompetingLinksAssessment_calculateResult_def)
qed

lemma TextCompetingLinksAssessment_getResult_fails_again:
  assumes "TextCompetingLinksAssessment_getResult E b p r = Inl e"
  shows "TextCompetingLinksAssessment_getResult E b p (researcher_after r (Inl e)) = Inl e"
proof (cases "getResearch r ''getAnchorsWithKeyphrase''")
  case (Inl e')
  with assms show ?thesis
    by (simp add: researcher_after_def)
next
  case (Inr x)
  obtain v r1 where x: "x = (v, r1)" by (cases x)
  show ?thesis
  proof (cases v)
    case Nullish
    with Inr x have g: "getResearch r ''getAnchorsWithKeyphrase'' = Inr (Nullish, r1)"
      by simp
    then have "getResearch r1 ''getAnchorsWithKeyphrase'' = Inr (Nullish, r1)"
      by (rule getResearch_again)
    with g assms show ?thesis
      by (simp add: researcher_after_def TextCompetingLinksAssessment_getResult_Nullish)
  next
    case (Object props)
    with Inr x have "getResearch r ''getAnchorsWithKeyphrase'' = Inr (Object props, r1)"
      by simp
    from TextCompetingLinksAssessment_getResult_Object [OF this, of E b p] assms
    show ?thesis by auto
  qed
qed

section \<open>Runs on the concrete inputs\<close>

lemma test_plain_text: "\<not> test findList_regex (utf16 ''dogs'')"
  by code_simp

lemma findList_plain_page: "\<not> ListAssessment_findList plain_collaborators plain_page"
  using test_plain_text
  by (simp add: ListAssessment_findList_def getText_def plain_page_def content_unit_def
      plain_collaborators_def)

lemma getResearch_researcher_counting:
  "getResearch (researcher_counting n p) ''getAnchorsWithKeyphrase''
     = Inr (count_research n p,
         (researcher_counting n p)
           \<lparr>cache := [(p, ''getAnchorsWithKeyphrase'') \<mapsto> count_research n p]\<rparr>)"
  by (simp add: getResearch_def researcher_counting_def new_researcher_def Let_def)

lemma getResult_researcher_counting:
  "\<exists>res b' r'. TextCompetingLinksAssessment_getResult E b p (researcher_counting n q)
     = Inr (res, b', r')"
  using TextCompetingLinksAssessment_getResult_Object
    [OF getResearch_researcher_counting [unfolded count_research_def], of E b p n q]
  by blast

section \<open>The claims\<close>

text \<open>
  C1: for the Content Unit with the text \<^verbatim>\<open><ul><li>a</li></ul> dogs\<close> and the keyphrase
  \<^verbatim>\<open>dogs\<close>, which holds no HTML block to remove, \<^verbatim>\<open>ListAssessment.getResult\<close> produces
  a Result whose score is the configured good threshold, 9 under the default
  configuration, and whose \<open>hasMarks\<close> is false.
\<close>

theorem list_scenario_result:
  assumes "paper_text p = utf16 ''<ul><li>a</li></ul> dogs''"
    and "keyphrase p = utf16 ''dogs''"
    and "removeHtmlBlocks E (utf16 ''<ul><li>a</li></ul> dogs'') = utf16 ''<ul><li>a</li></ul> dogs''"
  shows "assessment_result.score (fst (ListAssessment_getResult E (ListAssessment E cfg) p))
           = scores (config (ListAssessment E cfg)) ''good''
         \<and> assessment_result.score (fst (ListAssessment_getResult E (ListAssessment E no_options) p))
           = Some 9
         \<and> \<not> hasMarks (fst (ListAssessment_getResult E (ListAssessment E cfg) p))"
proof -
  have "ListAssessment_findList E p"
    using assms test_list_scenario by (simp add: ListAssessment_findList_def getText_def)
  then show ?thesis
    by (simp add: ListAssessment_getResult_score ListAssessment_getResult_hasMarks default_scores)
qed

theorem list_scenario_result_witness:
  "assessment_result.score (fst (ListAssessment_getResult plain_collaborators
       (ListAssessment plain_collaborators no_options) list_page)) = Some 9
   \<and> \<not> hasMarks (fst (ListAssessment_getResult plain_collaborators
       (ListAssessment plain_collaborators no_options) list_page))"
proof -
  have 1: "paper_text list_page = utf16 ''<ul><li>a</li></ul> dogs''"
    by (simp add: list_page_def content_unit_def)
  have 2: "keyphrase list_page = utf16 ''dogs''"
    by (simp add: list_page_def content_unit_def)
  have 3: "removeHtmlBlocks plain_collaborators (utf16 ''<ul><li>a</li></ul> dogs'')
             = utf16 ''<ul><li>a</li></ul> dogs''"
    by (simp add: plain_collaborators_def)
  from list_scenario_result [OF 1 2 3, of no_options] show ?thesis
    by blast
qed

text \<open>
  C2: for every instance of a check, whatever an earlier run on a Content Unit \<open>p\<close>
  has left in its fields, the run on a Content Unit \<open>q\<close> that follows yields the Result
  that a freshly constructed instance with the same configuration yields for \<open>q\<close>.
\<close>

theorem no_residue_between_runs:
  assumes "config a = config (ListAssessment E cfg)"
    and "config b = config (TextCompetingLinksAssessment E cfg')"
  shows "fst (ListAssessment_getResult E (snd (ListAssessment_getResult E a p)) q)
           = fst (ListAssessment_getResult E (ListAssessment E cfg) q)
         \<and> result_of (TextCompetingLinksAssessment_getResult E
               (instance_after b (TextCompetingLinksAssessment_getResult E b p r)) q s)
           = result_of (TextCompetingLinksAssessment_getResult E
               (TextCompetingLinksAssessment E cfg') q s)"
proof
  have "config (snd (ListAssessment_getResult E a p)) = config (ListAssessment E cfg)"
    using assms(1) by (simp add: ListAssessment_getResult_keeps_config)
  then show "fst (ListAssessment_getResult E (snd (ListAssessment_getResult E a p)) q)
           = fst (ListAssessment_getResult E (ListAssessment E cfg) q)"
    by (rule ListAssessment_getResult_config_only)
next
  have "config (instance_after b (TextCompetingLinksAssessment_getResult E b p r))
          = config (TextCompetingLinksAssessment E cfg')"
    using assms(2) by (simp add: TextCompetingLinksAssessment_getResult_keeps_config)
  then show "result_of (TextCompetingLinksAssessment_getResult E
               (instance_after b (TextCompetingLinksAssessment_getResult E b p r)) q s)
           = result_of (TextCompetingLinksAssessment_getResult E
               (TextCompetingLinksAssessment E cfg') q s)"
    by (rule TextCompetingLinksAssessment_getResult_config_only)
qed

theorem no_residue_between_runs_witness:
  "fst (ListAssessment_getResult plain_collaborators
      (snd (ListAssessment_getResult plain_collaborators used_ListAssessment list_page)) plain_page)
     = fst (ListAssessment_getResult plain_collaborators
         (ListAssessment plain_collaborators no_options) plain_page)
   \<and> result_of (TextCompetingLinksAssessment_getResult plain_collaborators
         (instance_after used_TextCompetingLinksAssessment
            (TextCompetingLinksAssessment_getResult plain_collaborators
               used_TextCompetingLinksAssessment list_page (researcher_counting 3 list_page)))
         plain_page (researcher_counting 0 plain_page))
     = result_of (TextCompetingLinksAssessment_getResult plain_collaborators
         (TextCompetingLinksAssessment plain_collaborators no_options)
         plain_page (researcher_counting 0 plain_page))
   \<and> assessment_result.score (fst (ListAssessment_getResult plain_collaborators
         (snd (ListAssessment_getResult plain_collaborators used_ListAssessment list_page))
         plain_page))
     = Some 3"
proof -
  have 1: "config used_ListAssessment = config (ListAssessment plain_collaborators no_options)"
    by (simp add: used_ListAssessment_def)
  have 2: "config used_TextCompetingLinksAssessment
      = config (TextCompetingLinksAssessment plain_collaborators no_options)"
    by (simp add: used_TextCompetingLinksAssessment_def)
  note t = no_residue_between_runs [OF 1 2, of list_page plain_page
      "researcher_counting 3 list_page" "researcher_counting 0 plain_page"]
  have "assessment_result.score (fst (ListAssessment_getResult plain_collaborators
         (ListAssessment plain_collaborators no_options) plain_page)) = Some 3"
    using findList_plain_page by (simp add: ListAssessment_getResult_score default_scores)
  with t show ?thesis
    by simp
qed

text \<open>
  C4: \<^verbatim>\<open>getResult\<close> is deterministic: a second call on the same instance with the same
  Content Unit returns the Result of the first, for the competing-links check both with
  the researcher in the same cache state and with the cache as the first call left it.
\<close>

theorem getResult_deterministic:
  "fst (ListAssessment_getResult E (snd (ListAssessment_getResult E a p)) p)
     = fst (ListAssessment_getResult E a p)
   \<and> result_of (TextCompetingLinksAssessment_getResult E
         (instance_after b (TextCompetingLinksAssessment_getResult E b p r)) p r)
     = result_of (TextCompetingLinksAssessment_getResult E b p r)
   \<and> result_of (TextCompetingLinksAssessment_getResult E
         (instance_after b (TextCompetingLinksAssessment_getResult E b p r)) p
         (researcher_after r (TextCompetingLinksAssessment_getResult E b p r)))
     = result_of (TextCompetingLinksAssessment_getResult E b p r)"
proof (intro conjI)
  show "fst (ListAssessment_getResult E (snd (ListAssessment_getResult E a p)) p)
     = fst (ListAssessment_getResult E a p)"
    by (rule ListAssessment_getResult_config_only) (rule ListAssessment_getResult_keeps_config)
  show "result_of (TextCompetingLinksAssessment_getResult E
         (instance_after b (TextCompetingLinksAssessment_getResult E b p r)) p r)
     = result_of (TextCompetingLinksAssessment_getResult E b p r)"
    by (rule TextCompetingLinksAssessment_getResult_config_only)
      (rule TextCompetingLinksAssessment_getResult_keeps_config)
  show "result_of (TextCompetingLinksAssessment_getResult E
         (instance_after b (TextCompetingLinksAssessment_getResult E b p r)) p
         (researcher_after r (TextCompetingLinksAssessment_getResult E b p r)))
     = result_of (TextCompetingLinksAssessment_getResult E b p r)"
  proof (cases "TextCompetingLinksAssessment_getResult E b p r")
    case (Inl e)
    then show ?thesis
      by (simp add: instance_after_def TextCompetingLinksAssessment_getResult_fails_again)
  next
    case (Inr x)
    then obtain res b' r' where
      "TextCompetingLinksAssessment_getResult E b p r = Inr (res, b', r')"
      by (cases x) auto
    then show ?thesis
      by (simp add: instance_after_def researcher_after_def
          TextCompetingLinksAssessment_getResult_again)
  qed
qed

theorem getResult_deterministic_witness:
  "fst (ListAssessment_getResult plain_collaborators
      (snd (ListAssessment_getResult plain_collaborators used_ListAssessment plain_page))
      plain_page)
     = fst (ListAssessment_getResult plain_collaborators used_ListAssessment plain_page)
   \<and> result_of (TextCompetingLinksAssessment_getResult plain_collaborators
         (instance_after used_TextCompetingLinksAssessment
            (TextCompetingLinksAssessment_getResult plain_collaborators
               used_TextCompetingLinksAssessment plain_page (researcher_counting 3 plain_page)))
         plain_page (researcher_counting 3 plain_page))
     = result_of (TextCompetingLinksAssessment_getResult plain_collaborators
         used_TextCompetingLinksAssessment plain_page (researcher_counting 3 plain_page))"
  using getResult_deterministic [of plain_collaborators used_ListAssessment plain_page
      used_TextCompetingLinksAssessment "researcher_counting 3 plain_page"]
  by blast


text \<open>
  C3: an option that the record passed to a constructor lacks has its built-in default
  in the merged configuration, and two records that agree on the options a check reads,
  so that they differ only in options unknown to it, give the same Result.
\<close>

theorem defaults_for_missing_options_unknown_options_ignored:
  "(opt_scores cfg k = None \<longrightarrow>
      scores (config (ListAssessment E cfg)) k = scores (ListAssessment_defaultConfig E) k
      \<and> scores (config (TextCompetingLinksAssessment E cfg)) k
          = scores (TextCompetingLinksAssessment_defaultConfig E) k)
   \<and> (opt_parameters cfg k = None \<longrightarrow>
      parameters (config (ListAssessment E cfg)) k = parameters (ListAssessment_defaultConfig E) k
      \<and> parameters (config (TextCompetingLinksAssessment E cfg)) k
          = parameters (TextCompetingLinksAssessment_defaultConfig E) k)
   \<and> (opt_urlTitle cfg = None \<longrightarrow>
      urlTitle (config (ListAssessment E cfg)) = urlTitle (ListAssessment_defaultConfig E)
      \<and> urlTitle (config (TextCompetingLinksAssessment E cfg))
          = urlTitle (TextCompetingLinksAssessment_defaultConfig E))
   \<and> (opt_urlCallToAction cfg = None \<longrightarrow>
      urlCallToAction (config (ListAssessment E cfg))
        = urlCallToAction (ListAssessment_defaultConfig E)
      \<and> urlCallToAction (config (TextCompetingLinksAssessment E cfg))
          = urlCallToAction (TextCompetingLinksAssessment_defaultConfig E))
   \<and> (ListAssessment_reads_same cfg cfg' \<longrightarrow>
        fst (ListAssessment_getResult E (ListAssessment E cfg) p)
          = fst (ListAssessment_getResult E (ListAssessment E cfg') p))
   \<and> (TextCompetingLinksAssessment_reads_same cfg cfg' \<longrightarrow>
        result_of (TextCompetingLinksAssessment_getResult E (TextCompetingLinksAssessment E cfg) p r)
          = result_of
              (TextCompetingLinksAssessment_getResult E (TextCompetingLinksAssessment E cfg') p r))"
proof -
  have la: "fst (ListAssessment_getResult E (ListAssessment E cfg) p)
          = fst (ListAssessment_getResult E (ListAssessment E cfg') p)"
    if "ListAssessment_reads_same cfg cfg'"
    using that
    by (simp add: ListAssessment_reads_same_def ListAssessment_getResult_def
        ListAssessment_calculateResult_def Let_def ListAssessment_config)
  have tcl: "result_of
        (TextCompetingLinksAssessment_getResult E (TextCompetingLinksAssessment E cfg) p r)
      = result_of
          (TextCompetingLinksAssessment_getResult E (TextCompetingLinksAssessment E cfg') p r)"
    if "TextCompetingLinksAssessment_reads_same cfg cfg'"
    using that
    by (simp add: TextCompetingLinksAssessment_reads_same_def
        TextCompetingLinksAssessment_getResult_def result_of_def
        TextCompetingLinksAssessment_calculateResult_def Let_def
        TextCompetingLinksAssessment_config
        split: sum.splits option.splits prod.splits research_value.splits)
  show ?thesis
    using la tcl by (simp add: ListAssessment_config TextCompetingLinksAssessment_config)
qed

theorem defaults_for_missing_options_unknown_options_ignored_witness:
  "scores (config (ListAssessment plain_collaborators unknown_options)) ''good'' = Some 9
   \<and> scores (config (ListAssessment plain_collaborators unknown_options)) ''bad'' = Some 3
   \<and> scores (config (TextCompetingLinksAssessment plain_collaborators unknown_options)) ''bad''
       = Some 2
   \<and> parameters (config (TextCompetingLinksAssessment plain_collaborators unknown_options))
         ''recommendedMaximum'' = Some 0
   \<and> urlTitle (config (ListAssessment plain_collaborators unknown_options))
       = utf16 ''<a href=https://yoa.st/shopify38>''
   \<and> urlCallToAction (config (TextCompetingLinksAssessment plain_collaborators unknown_options))
       = utf16 ''<a href=https://yoa.st/34m>''
   \<and> fst (ListAssessment_getResult plain_collaborators
         (ListAssessment plain_collaborators unknown_options) list_page)
       = fst (ListAssessment_getResult plain_collaborators
           (ListAssessment plain_collaborators no_options) list_page)
   \<and> result_of (TextCompetingLinksAssessment_getResult plain_collaborators
         (TextCompetingLinksAssessment plain_collaborators unknown_options)
         plain_page (researcher_counting 3 plain_page))
       = result_of (TextCompetingLinksAssessment_getResult plain_collaborators
           (TextCompetingLinksAssessment plain_collaborators no_options)
           plain_page (researcher_counting 3 plain_page))"
proof -
  have h: "opt_scores unknown_options ''good'' = None"
    "opt_scores unknown_options ''bad'' = None"
    "opt_parameters unknown_options ''recommendedMaximum'' = None"
    "opt_urlTitle unknown_options = None"
    "opt_urlCallToAction unknown_options = None"
    "ListAssessment_reads_same unknown_options no_options"
    "TextCompetingLinksAssessment_reads_same unknown_options no_options"
    by (simp_all add: unknown_options_def no_options_def ListAssessment_reads_same_def
        TextCompetingLinksAssessment_reads_same_def)
  have d: "scores (ListAssessment_defaultConfig plain_collaborators) ''good'' = Some 9"
    "scores (ListAssessment_defaultConfig plain_collaborators) ''bad'' = Some 3"
    "scores (TextCompetingLinksAssessment_defaultConfig plain_collaborators) ''bad'' = Some 2"
    "parameters (TextCompetingLinksAssessment_defaultConfig plain_collaborators)
       ''recommendedMaximum'' = Some 0"
    "urlTitle (ListAssessment_defaultConfig plain_collaborators)
       = utf16 ''<a href=https://yoa.st/shopify38>''"
    "urlCallToAction (TextCompetingLinksAssessment_defaultConfig plain_collaborators)
       = utf16 ''<a href=https://yoa.st/34m>''"
    by (simp_all add: ListAssessment_defaultConfig_def
        TextCompetingLinksAssessment_defaultConfig_def plain_collaborators_def utf16_def)
  note t = defaults_for_missing_options_unknown_options_ignored
    [where E = plain_collaborators and cfg = unknown_options and cfg' = no_options]
  from t [where k = "''good''" and p = list_page and r = "researcher_counting 3 plain_page"]
    t [where k = "''bad''" and p = plain_page and r = "researcher_counting 3 plain_page"]
    t [where k = "''recommendedMaximum''" and p = plain_page
       and r = "researcher_counting 3 plain_page"]
    h d
  show ?thesis
    by simp
qed




text \<open>
  C6: under the default configuration the score of every Result of \<^verbatim>\<open>getResult\<close> is
  absent or a number from 0 to 9: the list check yields 3 or 9, the competing-links
  check 2 or no score.
\<close>

theorem default_scores_in_scale:
  assumes "config a = config (ListAssessment E no_options)"
    and "config b = config (TextCompetingLinksAssessment E no_options)"
  shows "assessment_result.score (fst (ListAssessment_getResult E a p)) \<in> {Some 3, Some 9}
     \<and> in_scoring_scale (assessment_result.score (fst (ListAssessment_getResult E a p)))
     \<and> (\<forall>res b' r'. TextCompetingLinksAssessment_getResult E b p r = Inr (res, b', r') \<longrightarrow>
          assessment_result.score res \<in> {None, Some 2}
          \<and> in_scoring_scale (assessment_result.score res))"
proof (intro conjI allI impI)
  show "assessment_result.score (fst (ListAssessment_getResult E a p)) \<in> {Some 3, Some 9}"
    using assms(1) by (simp add: ListAssessment_getResult_score default_scores)
  then show "in_scoring_scale (assessment_result.score (fst (ListAssessment_getResult E a p)))"
    by (auto simp: in_scoring_scale_def)
next
  fix res b' r'
  assume "TextCompetingLinksAssessment_getResult E b p r = Inr (res, b', r')"
  then show "assessment_result.score res \<in> {None, Some 2}"
    using assms(2)
    by (auto dest!: TextCompetingLinksAssessment_getResult_Inr simp: default_scores)
  then show "in_scoring_scale (assessment_result.score res)"
    by (auto simp: in_scoring_scale_def)
qed

theorem default_scores_in_scale_witness:
  "assessment_result.score
      (fst (ListAssessment_getResult plain_collaborators used_ListAssessment plain_page)) = Some 3
   \<and> in_scoring_scale (assessment_result.score
        (fst (ListAssessment_getResult plain_collaborators used_ListAssessment plain_page)))
   \<and> (\<exists>res. result_of (TextCompetingLinksAssessment_getResult plain_collaborators
          used_TextCompetingLinksAssessment plain_page (researcher_counting 3 plain_page))
        = Inr res
        \<and> assessment_result.score res \<in> {None, Some 2}
        \<and> in_scoring_scale (assessment_result.score res))"
proof -
  have 1: "config used_ListAssessment = config (ListAssessment plain_collaborators no_options)"
    by (simp add: used_ListAssessment_def)
  have 2: "config used_TextCompetingLinksAssessment
      = config (TextCompetingLinksAssessment plain_collaborators no_options)"
    by (simp add: used_TextCompetingLinksAssessment_def)
  note t = default_scores_in_scale [OF 1 2, of plain_page "researcher_counting 3 plain_page"]
  obtain res b' r' where g: "TextCompetingLinksAssessment_getResult plain_collaborators
      used_TextCompetingLinksAssessment plain_page (researcher_counting 3 plain_page)
      = Inr (res, b', r')"
    using getResult_researcher_counting by blast
  have 3: "assessment_result.score
      (fst (ListAssessment_getResult plain_collaborators used_ListAssessment plain_page)) = Some 3"
    using findList_plain_page 1 by (simp add: ListAssessment_getResult_score default_scores)
  from t g have "assessment_result.score res \<in> {None, Some 2}
      \<and> in_scoring_scale (assessment_result.score res)"
    by blast
  with t 3 g show ?thesis
    by (simp add: result_of_def)
qed

text \<open>
  C7: \<^verbatim>\<open>TextCompetingLinksAssessment.isApplicable\<close> requires both text and a keyphrase,
  and returns false for every Content Unit with empty text.
\<close>

theorem empty_text_not_applicable:
  "(fst (TextCompetingLinksAssessment_isApplicable b p) \<longleftrightarrow> hasText p \<and> hasKeyword p)
   \<and> (paper_text p = [] \<longrightarrow> \<not> fst (TextCompetingLinksAssessment_isApplicable b p))"
  by (simp add: TextCompetingLinksAssessment_isApplicable_def hasText_def)

theorem empty_text_not_applicable_witness:
  "paper_text empty_page = []
   \<and> hasKeyword empty_page
   \<and> \<not> fst (TextCompetingLinksAssessment_isApplicable used_TextCompetingLinksAssessment
          empty_page)"
proof -
  have 1: "paper_text empty_page = []"
    by (simp add: empty_page_def content_unit_def)
  have 2: "hasKeyword empty_page"
    by (simp add: empty_page_def content_unit_def hasKeyword_def utf16_def)
  from empty_text_not_applicable [of used_TextCompetingLinksAssessment empty_page] 1 2
  show ?thesis
    by blast
qed

text \<open>
  C9: when the researcher reports a count of anchors, \<^verbatim>\<open>TextCompetingLinksAssessment.getResult\<close>
  returns a Result that has no score when the count is at most the configured
  \<open>recommendedMaximum\<close> (0 by default) and the configured bad score (2 by default),
  its only score, when the count exceeds the maximum; \<open>hasMarks\<close> of the Result is
  false in both cases.
\<close>

theorem competing_links_score:
  assumes "getResearch r ''getAnchorsWithKeyphrase'' = Inr (Object props, r')"
    and "props ''anchorsWithKeyphraseCount'' = Some n"
    and "parameters (config b) ''recommendedMaximum'' = Some m"
  shows "\<exists>res. TextCompetingLinksAssessment_getResult E b p r
        = Inr (res, b\<lparr>totalAnchorsWithKeyphrase := Some n\<rparr>, r')
     \<and> assessment_result.score res = (if m < n then scores (config b) ''bad'' else None)
     \<and> \<not> hasMarks res"
  using TextCompetingLinksAssessment_getResult_Object [OF assms(1), of E b p] assms(2,3)
  by simp

theorem competing_links_score_witness:
  "(\<exists>res b' r'. TextCompetingLinksAssessment_getResult plain_collaborators
        used_TextCompetingLinksAssessment plain_page (researcher_counting 0 plain_page)
      = Inr (res, b', r')
      \<and> assessment_result.score res = None \<and> \<not> hasMarks res)
   \<and> (\<exists>res b' r'. TextCompetingLinksAssessment_getResult plain_collaborators
        used_TextCompetingLinksAssessment plain_page (researcher_counting 1 plain_page)
      = Inr (res, b', r')
      \<and> assessment_result.score res = Some 2 \<and> \<not> hasMarks res)
   \<and> (\<exists>res b' r'. TextCompetingLinksAssessment_getResult plain_collaborators
        used_TextCompetingLinksAssessment plain_page (researcher_counting 3 plain_page)
      = Inr (res, b', r')
      \<and> assessment_result.score res = Some 2 \<and> \<not> hasMarks res)"
proof -
  let ?b = used_TextCompetingLinksAssessment
  have m: "parameters (config ?b) ''recommendedMaximum'' = Some 0"
    and bad: "scores (config ?b) ''bad'' = Some 2"
    by (simp_all add: used_TextCompetingLinksAssessment_def default_scores)
  have v: "[''anchorsWithKeyphraseCount'' \<mapsto> n] ''anchorsWithKeyphraseCount'' = Some n"
    for n :: int
    by simp
  have g: "getResearch (researcher_counting n plain_page) ''getAnchorsWithKeyphrase''
      = Inr (Object [''anchorsWithKeyphraseCount'' \<mapsto> n],
          (researcher_counting n plain_page)
            \<lparr>cache := [(plain_page, ''getAnchorsWithKeyphrase'')
                \<mapsto> Object [''anchorsWithKeyphraseCount'' \<mapsto> n]]\<rparr>)"
    for n
    using getResearch_researcher_counting [of n plain_page] by (simp add: count_research_def)
  note t = competing_links_score
    [OF g v m, where E = plain_collaborators and p = plain_page]
  from t [of 0] t [of 1] t [of 3] bad show ?thesis
    by auto
qed

text \<open>
  C10 as stated fails: in the text \<^verbatim>\<open><ul\<close>, line feed, \<^verbatim>\<open>></ul>\<close> an opening \<^verbatim>\<open><ul\<close> is
  followed by a character and a \<^verbatim>\<open>>\<close> and later by the closing \<^verbatim>\<open></ul>\<close>, and
  \<^verbatim>\<open>findList\<close> returns false.
\<close>

theorem findList_line_break_counterexample:
  "removeHtmlBlocks plain_collaborators
       (getText (content_unit (utf16 ''<ul'' @ [0x0A] @ utf16 ''></ul>'') []))
     = [] @ utf16 ''<ul'' @ [0x0A] @ utf16 ''>'' @ [] @ utf16 ''</ul>'' @ []
   \<and> \<not> ListAssessment_findList plain_collaborators
         (content_unit (utf16 ''<ul'' @ [0x0A] @ utf16 ''></ul>'') [])"
  by (simp add: plain_collaborators_def content_unit_def getText_def ListAssessment_findList_def
      findList_regex_def utf16_def is_line_terminator_def)

text \<open>
  C10, amended: \<^verbatim>\<open>findList\<close> returns true exactly when the text of the paper, after
  HTML-block removal, contains \<^verbatim>\<open><ul\<close> or \<^verbatim>\<open><ol\<close>, then any characters other than line
  terminators and a \<^verbatim>\<open>>\<close>, and anywhere later a closing \<^verbatim>\<open></ul>\<close> or \<^verbatim>\<open></ol>\<close>; the
  opening and the closing tag need not be of the same kind.
\<close>

theorem findList_characterisation:
  "ListAssessment_findList E p \<longleftrightarrow>
     (\<exists>a x m n y b.
        removeHtmlBlocks E (getText p)
          = a @ utf16 ''<'' @ [x] @ utf16 ''l'' @ m @ utf16 ''>'' @ n
              @ utf16 ''</'' @ [y] @ utf16 ''l>'' @ b
        \<and> x \<in> set (utf16 ''uo'') \<and> y \<in> set (utf16 ''uo'')
        \<and> (\<forall>c \<in> set m. \<not> is_line_terminator c))"
  by (simp add: ListAssessment_findList_def test_findList_regex)

theorem findList_characterisation_witness:
  "ListAssessment_findList plain_collaborators
     (content_unit (utf16 ''<ol class=x>a'' @ [0x0A] @ utf16 ''b</ul>'') [])"
proof -
  have "\<exists>a x m n y b.
        removeHtmlBlocks plain_collaborators
          (getText (content_unit (utf16 ''<ol class=x>a'' @ [0x0A] @ utf16 ''b</ul>'') []))
          = a @ utf16 ''<'' @ [x] @ utf16 ''l'' @ m @ utf16 ''>'' @ n
              @ utf16 ''</'' @ [y] @ utf16 ''l>'' @ b
        \<and> x \<in> set (utf16 ''uo'') \<and> y \<in> set (utf16 ''uo'')
        \<and> (\<forall>c \<in> set m. \<not> is_line_terminator c)"
    by (rule exI [of _ "[]"], rule exI [of _ "0x6F"], rule exI [of _ "utf16 '' class=x''"],
        rule exI [of _ "utf16 ''a'' @ [0x0A] @ utf16 ''b''"], rule exI [of _ "0x75"],
        rule exI [of _ "[]"])
      (simp add: plain_collaborators_def content_unit_def getText_def utf16_def
        is_line_terminator_def)
  then show ?thesis
    by (simp only: findList_characterisation [of plain_collaborators
          "content_unit (utf16 ''<ol class=x>a'' @ [0x0A] @ utf16 ''b</ul>'') []"])
qed

end
